theory Spec2Isabelle
  imports Complex_Main
begin

section \<open>Python values\<close>

text \<open>
  Exceptions are values: every function that can raise returns \<open>exn + 'a\<close>, with
  \<open>Inl\<close> the exception. \<open>Raised\<close> stands for any exception class the modelled
  code does not name itself.
\<close>

datatype exn = TypeError | ZeroDivisionError | Raised string

text \<open>
  A share count is a Python number: an \<open>int\<close> (an instance of
  \<open>numbers.Integral\<close>) or a value of a non-integral type (\<open>float\<close>,
  \<open>Decimal\<close>, \<open>Fraction\<close>), even when its value is a whole number. An integral
  count is Python's own unbounded \<open>int\<close>, the type the constructor declares.
\<close>

datatype pynum = PyInt int | PyFloat rat

fun py_add :: "pynum \<Rightarrow> pynum \<Rightarrow> pynum" where
  "py_add (PyInt a) (PyInt b) = PyInt (a + b)"
| "py_add (PyInt a) (PyFloat y) = PyFloat (of_int a + y)"
| "py_add (PyFloat x) (PyInt b) = PyFloat (x + of_int b)"
| "py_add (PyFloat x) (PyFloat y) = PyFloat (x + y)"

text \<open>
  A price or an amount of money is a number of Python's own (\<open>int\<close>, \<open>float\<close>) or
  a \<open>numpy.float64\<close>, the subclass of \<open>float\<close> that pandas hands out. Either kind
  holds the values of an IEEE double: the finite ones are exact rationals (every
  finite float denotes one; rounding and overflow are not modelled, and an \<open>int\<close>
  is a finite value), besides the two infinities and \<open>nan\<close>. The two kinds differ
  at a zero divisor: Python's own numbers raise \<open>ZeroDivisionError\<close>, while numpy
  warns and returns an infinity or \<open>nan\<close>.
\<close>

datatype float64 = Finite rat | Inf | Neg_inf | NaN

datatype pyreal = Native float64 | Numpy float64

abbreviation py_float :: "rat \<Rightarrow> pyreal" where
  "py_float r \<equiv> Native (Finite r)"

abbreviation np_float64 :: "rat \<Rightarrow> pyreal" where
  "np_float64 r \<equiv> Numpy (Finite r)"

text \<open>IEEE addition, and multiplication and division by an \<open>int\<close> (converted to a float).\<close>

fun f64_add :: "float64 \<Rightarrow> float64 \<Rightarrow> float64" where
  "f64_add NaN y = NaN"
| "f64_add x NaN = NaN"
| "f64_add Inf Neg_inf = NaN"
| "f64_add Neg_inf Inf = NaN"
| "f64_add Inf y = Inf"
| "f64_add x Inf = Inf"
| "f64_add Neg_inf y = Neg_inf"
| "f64_add x Neg_inf = Neg_inf"
| "f64_add (Finite a) (Finite b) = Finite (a + b)"

fun f64_times_int :: "float64 \<Rightarrow> int \<Rightarrow> float64" where
  "f64_times_int NaN n = NaN"
| "f64_times_int Inf n = (if 0 < n then Inf else if n < 0 then Neg_inf else NaN)"
| "f64_times_int Neg_inf n = (if 0 < n then Neg_inf else if n < 0 then Inf else NaN)"
| "f64_times_int (Finite a) n = Finite (a * of_int n)"

fun f64_div_int :: "float64 \<Rightarrow> int \<Rightarrow> float64" where
  "f64_div_int NaN n = NaN"
| "f64_div_int Inf n = (if 0 \<le> n then Inf else Neg_inf)"
| "f64_div_int Neg_inf n = (if 0 \<le> n then Neg_inf else Inf)"
| "f64_div_int (Finite a) n =
     (if n = 0 then (if 0 < a then Inf else if a < 0 then Neg_inf else NaN)
      else Finite (a / of_int n))"

text \<open>
  Python's \<open>x * n\<close> and \<open>x + y\<close>: a \<open>numpy.float64\<close> operand makes the result one.
\<close>

fun py_times_int :: "pyreal \<Rightarrow> int \<Rightarrow> pyreal" where
  "py_times_int (Native x) n = Native (f64_times_int x n)"
| "py_times_int (Numpy x) n = Numpy (f64_times_int x n)"

fun py_plus :: "pyreal \<Rightarrow> pyreal \<Rightarrow> pyreal" where
  "py_plus (Native x) (Native y) = Native (f64_add x y)"
| "py_plus (Native x) (Numpy y) = Numpy (f64_add x y)"
| "py_plus (Numpy x) (Native y) = Numpy (f64_add x y)"
| "py_plus (Numpy x) (Numpy y) = Numpy (f64_add x y)"

text \<open>
  Python's \<open>x / n\<close> by an \<open>int\<close>: true division. A number of Python's own raises on
  a zero divisor; a \<open>numpy.float64\<close> raises nothing.
\<close>

fun py_truediv :: "pyreal \<Rightarrow> int \<Rightarrow> exn + pyreal" where
  "py_truediv (Native x) n =
     (if n = 0 then Inl ZeroDivisionError else Inr (Native (f64_div_int x n)))"
| "py_truediv (Numpy x) n = Inr (Numpy (f64_div_int x n))"

section \<open>pytech/fin/asset/owned\_asset.py\<close>

text \<open>
  Modelled from the spec: the enum \<open>Position\<close> is declared in pytech.utils.enums,
  outside the files modelled here. The class names its members \<open>LONG\<close> and
  \<open>SHORT\<close>, and the spec gives no other.
\<close>

datatype Position = LONG | SHORT

text \<open>
  \<open>Position.check_if_valid\<close> (pytech.utils.enums) and \<open>utils.parse_date\<close> are
  called by the class and defined outside the files modelled here: they are
  parameters of the model. Either may raise. \<open>'a\<close> is whatever a caller passes as position,
  \<open>'d\<close> whatever it passes as a date, \<open>'t\<close> the timestamp \<open>parse_date\<close> returns.
\<close>

record ('a, 'd, 't) helpers =
  check_if_valid :: "'a \<Rightarrow> exn + Position"
  parse_date :: "'d \<Rightarrow> exn + 't"

text \<open>
  \<open>latest_price_time\<close> holds \<open>purchase_date.time()\<close> after construction and a
  parsed timestamp after \<open>update_total_position_value\<close>.
\<close>

datatype 't price_time = Time_of 't | Stamp 't

record 't OwnedAsset =
  ticker :: string
  position :: Position
  purchase_date :: 't
  average_share_price_paid :: pyreal
  latest_price :: pyreal
  latest_price_time :: "'t price_time"
  total_position_value :: pyreal
  total_position_cost :: pyreal
  shares_owned :: int

text \<open>
  The \<open>shares_owned\<close> setter: the only write to \<open>_shares_owned\<close>. It stores an
  instance of \<open>numbers.Integral\<close> and raises \<open>TypeError\<close> on anything else.
\<close>

fun shares_owned_setter :: "pynum \<Rightarrow> exn + int" where
  "shares_owned_setter (PyInt n) = Inr n"
| "shares_owned_setter (PyFloat x) = Inl TypeError"

text \<open>\<open>_set_position_cost_and_value\<close>: both totals move by \<open>price * self.shares_owned\<close>.\<close>

definition set_position_cost_and_value :: "pyreal \<Rightarrow> 't OwnedAsset \<Rightarrow> 't OwnedAsset" where
  "set_position_cost_and_value price self =
     (if position self = LONG then
        self\<lparr>total_position_cost :=
               py_plus (total_position_cost self)
                 (py_times_int (py_times_int price (shares_owned self)) (- 1)),
             total_position_value :=
               py_plus (total_position_value self)
                 (py_times_int price (shares_owned self))\<rparr>
      else
        self\<lparr>total_position_cost :=
               py_plus (total_position_cost self)
                 (py_times_int price (shares_owned self)),
             total_position_value :=
               py_plus (total_position_value self)
                 (py_times_int (py_times_int price (shares_owned self)) (- 1))\<rparr>)"

text \<open>
  \<open>__init__\<close>. \<open>now\<close> is the reading of \<open>datetime.now\<close>, used when no purchase
  date is given. The checks run in the source's order: the position, the date, the
  share count. Both totals start at the \<open>int\<close> 0.
\<close>

definition OwnedAsset_init ::
  "('a, 'd, 't) helpers \<Rightarrow> 't \<Rightarrow> string \<Rightarrow> pynum \<Rightarrow> 'a \<Rightarrow> pyreal \<Rightarrow> 'd option
     \<Rightarrow> exn + 't OwnedAsset" where
  "OwnedAsset_init h now tk shares pos avg_share_price purchase =
     (case check_if_valid h pos of
        Inl e \<Rightarrow> Inl e
      | Inr p \<Rightarrow>
          (case (case purchase of None \<Rightarrow> Inr now | Some d \<Rightarrow> parse_date h d) of
             Inl e \<Rightarrow> Inl e
           | Inr pd \<Rightarrow>
               (case shares_owned_setter shares of
                  Inl e \<Rightarrow> Inl e
                | Inr n \<Rightarrow>
                    Inr (set_position_cost_and_value avg_share_price
                          \<lparr>ticker = tk, position = p, purchase_date = pd,
                           average_share_price_paid = avg_share_price,
                           latest_price = avg_share_price,
                           latest_price_time = Time_of pd,
                           total_position_value = py_float 0,
                           total_position_cost = py_float 0,
                           shares_owned = n\<rparr>))))"

text \<open>
  \<open>from_trade\<close> builds a dict of keyword arguments and calls \<open>cls(**owned_asset_dict)\<close>.
  Python binds each keyword to the parameter of that name and raises \<open>TypeError\<close>
  for a keyword that names no parameter. \<open>Trade\<close> is read through its attributes only.
\<close>

record 'd Trade =
  trade_ticker :: string
  qty :: pynum
  avg_price_per_share :: pyreal
  trade_date :: "'d option"

definition OwnedAsset_params :: "string list" where
  "OwnedAsset_params =
     [''ticker'', ''shares_owned'', ''position'', ''avg_share_price'', ''purchase_date'']"

definition from_trade ::
  "('a, 'd, 't) helpers \<Rightarrow> 't \<Rightarrow> 'd Trade \<Rightarrow> 'a \<Rightarrow> exn + 't OwnedAsset" where
  "from_trade h now trade asset_position =
     (let owned_asset_dict_keys =
            [''ticker'', ''position'', ''shares_owned'', ''average_share_price'',
             ''purchase_date'']
      in if list_all (\<lambda>k. k \<in> set OwnedAsset_params) owned_asset_dict_keys
         then OwnedAsset_init h now (trade_ticker trade) (qty trade) asset_position
                (avg_price_per_share trade) (trade_date trade)
         else Inl TypeError)"

text \<open>
  \<open>make_trade\<close> returns the mutated object together with the value the call
  returns: \<open>Some self\<close>, or \<open>None\<close> when the division raised \<open>ZeroDivisionError\<close>.
  The setter raises before anything is written. The division is that of the total's
  kind: a \<open>numpy.float64\<close> total divided by zero shares raises nothing, and the
  average is overwritten.
\<close>

definition make_trade ::
  "'t OwnedAsset \<Rightarrow> pynum \<Rightarrow> pyreal \<Rightarrow> exn + ('t OwnedAsset \<times> 't OwnedAsset option)" where
  "make_trade self qty' price_per_share =
     (case shares_owned_setter (py_add (PyInt (shares_owned self)) qty') of
        Inl e \<Rightarrow> Inl e
      | Inr n \<Rightarrow>
          (let self1 = set_position_cost_and_value price_per_share (self\<lparr>shares_owned := n\<rparr>)
           in case py_truediv (total_position_value self1) (shares_owned self1) of
                Inl ZeroDivisionError \<Rightarrow> Inr (self1, None)
              | Inl e \<Rightarrow> Inl e
              | Inr avg \<Rightarrow>
                  (let self2 = self1\<lparr>average_share_price_paid := avg\<rparr>
                   in Inr (self2, Some self2))))"

text \<open>
  \<open>update_total_position_value\<close>. \<open>latest_price\<close> is written before
  \<open>parse_date\<close> runs; when it raises, the call raises.
\<close>

definition update_total_position_value ::
  "('a, 'd, 't) helpers \<Rightarrow> 't OwnedAsset \<Rightarrow> pyreal \<Rightarrow> 'd \<Rightarrow> exn + 't OwnedAsset" where
  "update_total_position_value h self latest price_date =
     (let self1 = self\<lparr>latest_price := latest\<rparr>
      in case parse_date h price_date of
           Inl e \<Rightarrow> Inl e
         | Inr t \<Rightarrow>
             (let self2 = self1\<lparr>latest_price_time := Stamp t\<rparr>
              in Inr (if position self2 = SHORT then
                        self2\<lparr>total_position_value :=
                                py_times_int
                                  (py_times_int (latest_price self2) (shares_owned self2))
                                  (- 1)\<rparr>
                      else
                        self2\<lparr>total_position_value :=
                                py_times_int (latest_price self2) (shares_owned self2)\<rparr>)))"

text \<open>
  A call of \<open>update_total_position_value\<close> with a list of positional arguments.
  Python binds them to \<open>(latest_price, price_date)\<close> before the body runs and raises
  \<open>TypeError\<close> when a required parameter is left unbound or an argument is left
  over. (The source passes no argument of the wrong kind; such a call is given
  \<open>TypeError\<close> too.)
\<close>

fun call_update_total_position_value ::
  "('a, 'd, 't) helpers \<Rightarrow> 't OwnedAsset \<Rightarrow> (pyreal + 'd) list \<Rightarrow> exn + 't OwnedAsset" where
  "call_update_total_position_value h self [Inl latest, Inr price_date] =
     update_total_position_value h self latest price_date"
| "call_update_total_position_value h self args = Inl TypeError"

text \<open>
  \<open>return_on_investment\<close>: the update is called with no arguments. The division
  after it is by a float, where numpy's result at a zero divisor depends on the
  zero's sign, which the values above do not carry: Python's \<open>/\<close> between two
  amounts is the parameter \<open>truediv\<close>.
\<close>

definition return_on_investment ::
  "(pyreal \<Rightarrow> pyreal \<Rightarrow> exn + pyreal) \<Rightarrow> ('a, 'd, 't) helpers \<Rightarrow> 't OwnedAsset
     \<Rightarrow> exn + pyreal" where
  "return_on_investment truediv h self =
     (case call_update_total_position_value h self [] of
        Inl e \<Rightarrow> Inl e
      | Inr self1 \<Rightarrow>
          truediv (py_plus (total_position_value self1) (total_position_cost self1))
            (py_times_int (total_position_cost self1) (- 1)))"

section \<open>pytech/backtest/backtest.py\<close>

text \<open>
  Modelled from the spec: the enum \<open>EventType\<close> is declared in
  pytech.utils.enums, outside the files modelled here. The dispatcher names four
  members; \<open>OTHER\<close> stands for
  any other value an event's \<open>event_type\<close> may hold.
\<close>

datatype EventType = MARKET | SIGNAL | TRADE | FILL | OTHER string

record 'p event =
  event_type :: EventType
  payload :: 'p

text \<open>
  The data handler, the strategy, the portfolio and the execution handler are
  defined outside the files modelled here and are parameters: \<open>'w\<close> is their
  joint state. Each was constructed with the event queue
  and may put items on it; a call returns the new state and the items it put, in
  order, or raises. An item of the queue is an event or Python's \<open>None\<close>.
  \<open>update_bars\<close> returns, raises \<open>StopIteration\<close>, or raises something else.
\<close>

datatype ('w, 'p) bars_result =
    Next_bar 'w "'p event option list"
  | Stop_iteration 'w "'p event option list"
  | Bars_raised exn

type_synonym ('w, 'p) handler = "'p event \<Rightarrow> 'w \<Rightarrow> exn + ('w \<times> 'p event option list)"

record ('w, 'p) collaborators =
  update_bars :: "'w \<Rightarrow> ('w, 'p) bars_result"
  generate_signals :: "('w, 'p) handler"
  update_timeindex :: "('w, 'p) handler"
  update_signal :: "('w, 'p) handler"
  execute_order :: "('w, 'p) handler"
  update_fill :: "('w, 'p) handler"

text \<open>
  The state of a \<open>Backtest\<close>: its three counters, its queue (head first) and the
  collaborators' state. Two history variables record what happened and are read by
  no definition: \<open>put_history\<close>, every item ever put on the queue, and
  \<open>dispatched\<close>, every event \<open>_process_event\<close> was called with (the event its
  debug line logs).
\<close>

record ('w, 'p) Backtest =
  signals :: int
  orders :: int
  fills :: int
  events :: "'p event option list"
  world :: 'w
  put_history :: "'p event option list"
  dispatched :: "'p event list"

text \<open>\<open>__init__\<close>: a fresh \<open>queue.Queue()\<close> and zeroed counters.\<close>

definition Backtest_init :: "'w \<Rightarrow> ('w, 'p) Backtest" where
  "Backtest_init w =
     \<lparr>signals = 0, orders = 0, fills = 0, events = [], world = w,
      put_history = [], dispatched = []\<rparr>"

definition put :: "'p event option list \<Rightarrow> ('w, 'p) Backtest \<Rightarrow> ('w, 'p) Backtest" where
  "put items bt = bt\<lparr>events := events bt @ items, put_history := put_history bt @ items\<rparr>"

definition call_handler ::
  "('w, 'p) handler \<Rightarrow> 'p event \<Rightarrow> ('w, 'p) Backtest \<Rightarrow> exn + ('w, 'p) Backtest" where
  "call_handler f ev bt =
     (case f ev (world bt) of
        Inl e \<Rightarrow> Inl e
      | Inr (w, items) \<Rightarrow> Inr (put items (bt\<lparr>world := w\<rparr>)))"

text \<open>\<open>_process_event\<close>: an \<open>if\<close>/\<open>elif\<close> chain with no \<open>else\<close>.\<close>

definition process_event ::
  "('w, 'p) collaborators \<Rightarrow> 'p event \<Rightarrow> ('w, 'p) Backtest \<Rightarrow> exn + ('w, 'p) Backtest" where
  "process_event c ev bt0 =
     (let bt = bt0\<lparr>dispatched := dispatched bt0 @ [ev]\<rparr>
      in if event_type ev = MARKET then
           (case call_handler (generate_signals c) ev bt of
              Inl e \<Rightarrow> Inl e
            | Inr bt1 \<Rightarrow> call_handler (update_timeindex c) ev bt1)
         else if event_type ev = SIGNAL then
           call_handler (update_signal c) ev (bt\<lparr>signals := signals bt + 1\<rparr>)
         else if event_type ev = TRADE then
           call_handler (execute_order c) ev (bt\<lparr>orders := orders bt + 1\<rparr>)
         else if event_type ev = FILL then
           call_handler (update_fill c) ev (bt\<lparr>fills := fills bt + 1\<rparr>)
         else Inr bt)"

text \<open>
  The inner loop of \<open>run\<close>: \<open>events.get(False)\<close> until \<open>queue.Empty\<close>. A handler may
  put new items at every step, so the loop need not end: \<open>None\<close> is a run that
  never leaves it.
\<close>

partial_function (option) drain ::
  "('w, 'p) collaborators \<Rightarrow> ('w, 'p) Backtest \<Rightarrow> (exn + ('w, 'p) Backtest) option" where
  "drain c bt =
     (case events bt of
        [] \<Rightarrow> Some (Inr bt)
      | item # rest \<Rightarrow>
          (case item of
             None \<Rightarrow> drain c (bt\<lparr>events := rest\<rparr>)
           | Some ev \<Rightarrow>
               (case process_event c ev (bt\<lparr>events := rest\<rparr>) of
                  Inl e \<Rightarrow> Some (Inl e)
                | Inr bt1 \<Rightarrow> drain c bt1)))"

text \<open>The outer loop: one bar, then the inner loop; \<open>StopIteration\<close> breaks it.\<close>

partial_function (option) run_loop ::
  "('w, 'p) collaborators \<Rightarrow> ('w, 'p) Backtest \<Rightarrow> (exn + ('w, 'p) Backtest) option" where
  "run_loop c bt =
     (case update_bars c (world bt) of
        Stop_iteration w items \<Rightarrow> Some (Inr (put items (bt\<lparr>world := w\<rparr>)))
      | Bars_raised e \<Rightarrow> Some (Inl e)
      | Next_bar w items \<Rightarrow>
          (case drain c (put items (bt\<lparr>world := w\<rparr>)) of
             None \<Rightarrow> None
           | Some (Inl e) \<Rightarrow> Some (Inl e)
           | Some (Inr bt1) \<Rightarrow> run_loop c bt1))"

text \<open>\<open>pre_run_hook\<close> does nothing in \<open>Backtest\<close> itself.\<close>

declare drain.simps [code]
declare run_loop.simps [code]

definition pre_run_hook :: "('w, 'p) Backtest \<Rightarrow> ('w, 'p) Backtest" where
  "pre_run_hook bt = bt"

definition run ::
  "('w, 'p) collaborators \<Rightarrow> ('w, 'p) Backtest \<Rightarrow> (exn + ('w, 'p) Backtest) option" where
  "run c bt = run_loop c (pre_run_hook bt)"

text \<open>
  What the histories say of a state: the events put so far are those dispatched so
  far, in the same order, followed by those still queued.
\<close>

fun events_of :: "'a option list \<Rightarrow> 'a list" where
  "events_of [] = []"
| "events_of (None # items) = events_of items"
| "events_of (Some ev # items) = ev # events_of items"

definition history_ok :: "('w, 'p) Backtest \<Rightarrow> bool" where
  "history_ok bt = (events_of (put_history bt) = dispatched bt @ events_of (events bt))"

text \<open>A data handler that puts nothing on the queue in the call that raises \<open>StopIteration\<close>.\<close>

definition quiet_stop :: "('w, 'p) collaborators \<Rightarrow> bool" where
  "quiet_stop c = (\<forall>w w' items. update_bars c w = Stop_iteration w' items \<longrightarrow> items = [])"

text \<open>
  How a run ends: the state \<open>StopIteration\<close> leaves behind holds, on the queue,
  exactly the items the data handler put in the call that raised it; all that was
  put before has been dispatched.
\<close>

definition ended_by_stop :: "('w, 'p) collaborators \<Rightarrow> ('w, 'p) Backtest \<Rightarrow> bool" where
  "ended_by_stop c bt' =
     (\<exists>w0 w1 items older.
        update_bars c w0 = Stop_iteration w1 items \<and> world bt' = w1
        \<and> events bt' = items \<and> put_history bt' = older @ items
        \<and> dispatched bt' = events_of older)"

section \<open>pytech/fin/portfolio.py\<close>

text \<open>
  Modelled from the spec: \<open>Portfolio\<close> and its \<open>check_liquidity\<close> are defined in
  pytech/fin/portfolio.py, which is missing; only tests/test\_portfolio.py calls them. The spec: the cost
  of a trade is price times quantity; the check is true iff the free cash covers
  it, and always true for a negative quantity.
\<close>

record Portfolio =
  cash :: rat

definition Portfolio_init :: "rat \<Rightarrow> Portfolio" where
  "Portfolio_init starting_cash = \<lparr>cash = starting_cash\<rparr>"

definition check_liquidity :: "Portfolio \<Rightarrow> rat \<Rightarrow> int \<Rightarrow> bool" where
  "check_liquidity pf price q =
     (let cost = price * of_int q in if q < 0 then True else cost \<le> cash pf)"

section \<open>Sequences of fills\<close>

text \<open>
  Fills applied to one asset, one \<open>make_trade\<close> after the other, up to the first
  exception.
\<close>

fun make_trades :: "'t OwnedAsset \<Rightarrow> (pynum \<times> pyreal) list \<Rightarrow> exn + 't OwnedAsset" where
  "make_trades self [] = Inr self"
| "make_trades self ((q, price) # rest) =
     (case make_trade self q price of
        Inl e \<Rightarrow> Inl e
      | Inr (self1, ret) \<Rightarrow> make_trades self1 rest)"

text \<open>
  The spec's words for a list of fills (quantity, price): the cumulative cash
  outflow is the sum of price times quantity, and the single equivalent combined
  fill has the total quantity at the quantity-weighted price.
\<close>

definition cash_outflow :: "(int \<times> rat) list \<Rightarrow> rat" where
  "cash_outflow fs = sum_list (map (\<lambda>(q, price). price * of_int q) fs)"

definition combined_fill :: "(int \<times> rat) list \<Rightarrow> int \<times> rat" where
  "combined_fill fs =
     (sum_list (map fst fs), cash_outflow fs / of_int (sum_list (map fst fs)))"

section \<open>Concrete inputs\<close>

text \<open>
  Helpers for the evaluations below: a position is passed by name, a date is
  already a timestamp (a number).
\<close>

definition demo_helpers :: "(string, nat, nat) helpers" where
  "demo_helpers =
     \<lparr>check_if_valid =
        (\<lambda>s. if s = ''LONG'' then Inr LONG
             else if s = ''SHORT'' then Inr SHORT
             else Inl (Raised ''InvalidPositionError'')),
      parse_date = Inr\<rparr>"

text \<open>
  Ten shares bought at the Python float 10.0, and the same asset after ten more
  bought at 10.0.
\<close>

definition ten_at_ten :: "nat OwnedAsset" where
  "ten_at_ten =
     \<lparr>ticker = ''X'', position = LONG, purchase_date = 0,
      average_share_price_paid = py_float 10, latest_price = py_float 10,
      latest_price_time = Time_of 0,
      total_position_value = py_float 100, total_position_cost = py_float (- 100),
      shares_owned = 10\<rparr>"

definition twenty_after :: "nat OwnedAsset" where
  "twenty_after =
     \<lparr>ticker = ''X'', position = LONG, purchase_date = 0,
      average_share_price_paid = py_float 15, latest_price = py_float 10,
      latest_price_time = Time_of 0,
      total_position_value = py_float 300, total_position_cost = py_float (- 300),
      shares_owned = 20\<rparr>"

definition ten_shares_trade :: "nat Trade" where
  "ten_shares_trade =
     \<lparr>trade_ticker = ''X'', qty = PyInt 10, avg_price_per_share = py_float 10,
      trade_date = None\<rparr>"

text \<open>
  Ten shares bought at \<open>numpy.float64(10.0)\<close>, and the same asset after a fill of
  minus ten at \<open>numpy.float64(12.0)\<close>.
\<close>

definition np_ten_at_ten :: "nat OwnedAsset" where
  "np_ten_at_ten =
     \<lparr>ticker = ''X'', position = LONG, purchase_date = 0,
      average_share_price_paid = np_float64 10, latest_price = np_float64 10,
      latest_price_time = Time_of 0,
      total_position_value = np_float64 100,
      total_position_cost = np_float64 (- 100),
      shares_owned = 10\<rparr>"

definition np_sold_out :: "nat OwnedAsset" where
  "np_sold_out =
     \<lparr>ticker = ''X'', position = LONG, purchase_date = 0,
      average_share_price_paid = Numpy Inf, latest_price = np_float64 10,
      latest_price_time = Time_of 0,
      total_position_value = np_float64 100,
      total_position_cost = np_float64 (- 100),
      shares_owned = 0\<rparr>"

text \<open>
  Collaborators with a countdown of bars as their state: each bar puts a MARKET
  event, the strategy answers with a SIGNAL, the portfolio with \<open>None\<close> and a TRADE,
  the execution handler with a FILL.
\<close>

definition demo_event :: "EventType \<Rightarrow> unit event" where
  "demo_event ty = \<lparr>event_type = ty, payload = ()\<rparr>"

definition demo :: "(nat, unit) collaborators" where
  "demo =
     \<lparr>update_bars =
        (\<lambda>n. if n = 0 then Stop_iteration 0 []
             else Next_bar (n - 1) [Some (demo_event MARKET)]),
      generate_signals = (\<lambda>ev w. Inr (w, [Some (demo_event SIGNAL)])),
      update_timeindex = (\<lambda>ev w. Inr (w, [])),
      update_signal = (\<lambda>ev w. Inr (w, [None, Some (demo_event TRADE)])),
      execute_order = (\<lambda>ev w. Inr (w, [Some (demo_event FILL)])),
      update_fill = (\<lambda>ev w. Inr (w, []))\<rparr>"

definition demo_final :: "(nat, unit) Backtest" where
  "demo_final =
     \<lparr>signals = 1, orders = 1, fills = 1, events = [], world = 0,
      put_history = [Some (demo_event MARKET), Some (demo_event SIGNAL), None,
                     Some (demo_event TRADE), Some (demo_event FILL)],
      dispatched = [demo_event MARKET, demo_event SIGNAL, demo_event TRADE,
                    demo_event FILL]\<rparr>"




section \<open>OwnedAsset: construction\<close>

text \<open>
  What the constructor establishes when it is called directly with an integral share
  count and a finite price of either kind: the price is both the average and the
  latest price, value and cost are the position at that price with opposite signs,
  and they sum to zero.
\<close>

lemma OwnedAsset_init_establishes:
  assumes "OwnedAsset_init h now tk (PyInt n) pos (py_float p) purchase = Inr self"
  shows "average_share_price_paid self = py_float p \<and> latest_price self = py_float p
       \<and> shares_owned self = n
       \<and> total_position_value self =
           py_float (case position self of LONG \<Rightarrow> of_int n * p | SHORT \<Rightarrow> - (of_int n * p))
       \<and> total_position_cost self =
           py_float (case position self of LONG \<Rightarrow> - (of_int n * p) | SHORT \<Rightarrow> of_int n * p)
       \<and> py_plus (total_position_value self) (total_position_cost self) = py_float 0"
  using assms
  by (auto simp: OwnedAsset_init_def set_position_cost_and_value_def
           split: sum.splits option.splits Position.splits)

lemma OwnedAsset_init_establishes_numpy:
  assumes "OwnedAsset_init h now tk (PyInt n) pos (np_float64 p) purchase = Inr self"
  shows "average_share_price_paid self = np_float64 p
       \<and> latest_price self = np_float64 p
       \<and> shares_owned self = n
       \<and> total_position_value self =
           np_float64 (case position self of
                         LONG \<Rightarrow> of_int n * p | SHORT \<Rightarrow> - (of_int n * p))
       \<and> total_position_cost self =
           np_float64 (case position self of
                         LONG \<Rightarrow> - (of_int n * p) | SHORT \<Rightarrow> of_int n * p)
       \<and> py_plus (total_position_value self) (total_position_cost self) = np_float64 0"
  using assms
  by (auto simp: OwnedAsset_init_def set_position_cost_and_value_def
           split: sum.splits option.splits Position.splits)

text \<open>
  C10 (the constructor, also through \<open>from_trade\<close>, establishes average price, latest
  price, value, cost and a zero sum). The dict \<open>from_trade\<close> passes holds the keyword
  \<open>average_share_price\<close>; the constructor's parameter is \<open>avg_share_price\<close>. At a trade
  of ten shares at 10 the call raises \<open>TypeError\<close> and no asset is constructed, while
  the constructor called directly with the same values returns one.
\<close>

theorem from_trade_raises_TypeError:
  "from_trade demo_helpers 0 ten_shares_trade ''LONG'' = Inl TypeError
   \<and> OwnedAsset_init demo_helpers 0 (trade_ticker ten_shares_trade) (qty ten_shares_trade)
        ''LONG'' (avg_price_per_share ten_shares_trade) (trade_date ten_shares_trade)
      = Inr ten_at_ten"
  by (simp add: from_trade_def OwnedAsset_params_def ten_shares_trade_def
        OwnedAsset_init_def demo_helpers_def set_position_cost_and_value_def ten_at_ten_def)

text \<open>The same holds of every call of \<open>from_trade\<close>.\<close>

lemma from_trade_never_returns: "from_trade h now trade pos = Inl TypeError"
  by (simp add: from_trade_def OwnedAsset_params_def)

section \<open>OwnedAsset: fills\<close>

text \<open>
  What \<open>make_trade\<close> computes for a fill of \<open>k\<close> shares of a long position: the
  value grows by the price times the new share count, not times \<open>k\<close>, and a fill
  that returns the object has set the average to that value over the new count.
\<close>

lemma make_trade_long_value:
  assumes "position self = LONG"
    and "make_trade self (PyInt k) price = Inr (self', ret)"
  shows "total_position_value self'
           = py_plus (total_position_value self) (py_times_int price (shares_owned self + k))
       \<and> (ret \<noteq> None \<longrightarrow>
            py_truediv (total_position_value self') (shares_owned self + k)
              = Inr (average_share_price_paid self'))"
  using assms
  by (auto simp: make_trade_def Let_def set_position_cost_and_value_def
           split: sum.splits exn.splits)

text \<open>
  C1 (fills applied one by one give the average price of the single combined fill).
  Ten shares at 10, then a fill of ten more at 10: the code's average is 15. The
  combined fill is twenty shares at 10, and an asset constructed from it has average
  10.
\<close>

theorem make_trade_average_not_weighted:
  "OwnedAsset_init demo_helpers 0 ''X'' (PyInt 10) ''LONG'' (py_float 10) None = Inr ten_at_ten
   \<and> make_trades ten_at_ten [(PyInt 10, py_float 10)] = Inr twenty_after
   \<and> average_share_price_paid twenty_after = py_float 15
   \<and> combined_fill [(10, 10), (10, 10)] = (20, 10)
   \<and> map_sum id average_share_price_paid
        (OwnedAsset_init demo_helpers 0 ''X'' (PyInt 20) ''LONG'' (py_float 10) None)
       = Inr (py_float 10)
   \<and> average_share_price_paid twenty_after
       \<noteq> py_float (snd (combined_fill [(10, 10), (10, 10)]))"
  by (simp add: OwnedAsset_init_def demo_helpers_def set_position_cost_and_value_def
        ten_at_ten_def twenty_after_def make_trade_def combined_fill_def
        cash_outflow_def Let_def)

text \<open>
  C2 (after each fill a long position's cost is minus the cumulative cash outflow and
  its value is the share count times the latest price). After the same two fills the
  cumulative outflow is 200 and twenty shares at the latest price 10 are worth 200;
  the code holds cost \<open>-300\<close> and value 300.
\<close>

theorem make_trade_cost_not_cumulative_outflow:
  "make_trade ten_at_ten (PyInt 10) (py_float 10) = Inr (twenty_after, Some twenty_after)
   \<and> total_position_cost twenty_after = py_float (- 300)
   \<and> - cash_outflow [(10, 10), (10, 10)] = - 200
   \<and> total_position_cost twenty_after \<noteq> py_float (- cash_outflow [(10, 10), (10, 10)])
   \<and> total_position_value twenty_after = py_float 300
   \<and> py_times_int (latest_price twenty_after) (shares_owned twenty_after) = py_float 200
   \<and> total_position_value twenty_after
       \<noteq> py_times_int (latest_price twenty_after) (shares_owned twenty_after)"
  by (simp add: set_position_cost_and_value_def ten_at_ten_def twenty_after_def
        make_trade_def cash_outflow_def Let_def)

text \<open>
  A fill that brings the share count to zero, on totals and at a price of Python's
  own numbers: the division raises \<open>ZeroDivisionError\<close>, \<open>make_trade\<close> catches it and
  returns \<open>None\<close>, and the object is left with zero shares and everything else, the
  average price paid included, as it was.
\<close>

lemma f64_add_zero: "f64_add x (Finite 0) = x"
  by (cases x) simp_all

lemma make_trade_to_zero_native:
  assumes "shares_owned self + k = 0"
    and "total_position_value self = Native v" and "total_position_cost self = Native c"
  shows "make_trade self (PyInt k) (py_float p) = Inr (self\<lparr>shares_owned := 0\<rparr>, None)"
  using assms
  by (cases self) (simp add: make_trade_def set_position_cost_and_value_def f64_add_zero)

text \<open>
  On a \<open>numpy.float64\<close> total no fill returns \<open>None\<close>, whatever the share count
  it leaves: the division raises nothing.
\<close>

lemma py_plus_Numpy: "\<exists>y. py_plus (Numpy x) z = Numpy y"
  by (cases z) simp_all

lemma make_trade_numpy_returns_self:
  assumes "total_position_value self = Numpy x"
    and "make_trade self q price = Inr (self', ret)"
  shows "ret = Some self'"
proof -
  obtain k where q: "q = PyInt k"
    using assms(2) by (cases q) (simp_all add: make_trade_def)
  define s1 where
    "s1 = set_position_cost_and_value price (self\<lparr>shares_owned := shares_owned self + k\<rparr>)"
  have "\<exists>y. total_position_value s1 = Numpy y"
    unfolding s1_def set_position_cost_and_value_def
    using py_plus_Numpy [of x] assms(1) by simp
  then obtain y where y: "total_position_value s1 = Numpy y" ..
  have "make_trade self q price =
          Inr (s1\<lparr>average_share_price_paid := Numpy (f64_div_int y (shares_owned s1))\<rparr>,
               Some (s1\<lparr>average_share_price_paid := Numpy (f64_div_int y (shares_owned s1))\<rparr>))"
    using y q by (simp add: make_trade_def Let_def s1_def [symmetric])
  with assms(2) show ?thesis by auto
qed

text \<open>The same at a \<open>numpy.float64\<close> price, whatever the totals were.\<close>

lemma py_plus_Numpy_right: "\<exists>y. py_plus z (Numpy x) = Numpy y"
  by (cases z) simp_all

lemma make_trade_numpy_price_returns_self:
  assumes "make_trade self q (Numpy x) = Inr (self', ret)"
  shows "ret = Some self'"
proof -
  obtain k where q: "q = PyInt k"
    using assms by (cases q) (simp_all add: make_trade_def)
  define s1 where
    "s1 = set_position_cost_and_value (Numpy x)
            (self\<lparr>shares_owned := shares_owned self + k\<rparr>)"
  have "\<exists>y. total_position_value s1 = Numpy y"
    unfolding s1_def set_position_cost_and_value_def
    by (simp add: py_plus_Numpy_right)
  then obtain y where y: "total_position_value s1 = Numpy y" ..
  have "make_trade self q (Numpy x) =
          Inr (s1\<lparr>average_share_price_paid := Numpy (f64_div_int y (shares_owned s1))\<rparr>,
               Some (s1\<lparr>average_share_price_paid := Numpy (f64_div_int y (shares_owned s1))\<rparr>))"
    using y q by (simp add: make_trade_def Let_def s1_def [symmetric])
  with assms show ?thesis by auto
qed

text \<open>
  C5 (a fill that brings the share count to exactly zero returns \<open>None\<close> and leaves
  the average price paid unchanged). Ten shares bought at \<open>numpy.float64(10.0)\<close>, then
  a fill of minus ten: the total 100.0 divided by zero shares is \<open>inf\<close>, nothing is
  raised, the average is overwritten with it and the call returns the object.
\<close>

theorem make_trade_to_zero_numpy_overwrites_average:
  "OwnedAsset_init demo_helpers 0 ''X'' (PyInt 10) ''LONG'' (np_float64 10) None
     = Inr np_ten_at_ten
   \<and> shares_owned np_ten_at_ten + (- 10) = 0
   \<and> make_trade np_ten_at_ten (PyInt (- 10)) (np_float64 12)
       = Inr (np_sold_out, Some np_sold_out)
   \<and> average_share_price_paid np_sold_out = Numpy Inf
   \<and> average_share_price_paid np_sold_out \<noteq> average_share_price_paid np_ten_at_ten"
  by (simp add: OwnedAsset_init_def demo_helpers_def set_position_cost_and_value_def
        np_ten_at_ten_def np_sold_out_def make_trade_def Let_def)

text \<open>
  C8 (a non-integral share count raises \<open>TypeError\<close>, an invalid position fails the
  construction, and the share count is an integer after every successful operation).
  With a share count of a non-integral type the constructor always raises, and raises
  \<open>TypeError\<close> once the position and the date are accepted; \<open>from_trade\<close> and
  \<open>make_trade\<close> raise \<open>TypeError\<close>. A position \<open>check_if_valid\<close> rejects fails the
  construction with that exception. A construction or a fill that succeeds was given
  an \<open>int\<close>, which is stored as it is.
\<close>

theorem non_integral_shares_raise_TypeError:
  "(\<exists>e. OwnedAsset_init h now tk (PyFloat x) pos price purchase = Inl e)
   \<and> (check_if_valid h pos = Inr side
        \<and> (purchase = None \<or> (\<exists>d t. purchase = Some d \<and> parse_date h d = Inr t))
      \<longrightarrow> OwnedAsset_init h now tk (PyFloat x) pos price purchase = Inl TypeError)
   \<and> from_trade h now (trade\<lparr>qty := PyFloat x\<rparr>) pos = Inl TypeError
   \<and> make_trade self (PyFloat x) price = Inl TypeError
   \<and> (check_if_valid h pos = Inl e
      \<longrightarrow> OwnedAsset_init h now tk n pos price purchase = Inl e)
   \<and> (OwnedAsset_init h now tk n pos price purchase = Inr a \<longrightarrow> n = PyInt (shares_owned a))
   \<and> (make_trade self q price = Inr (a', ret)
      \<longrightarrow> (\<exists>k. q = PyInt k \<and> shares_owned a' = shares_owned self + k))"
proof -
  have always: "\<exists>e. OwnedAsset_init h now tk (PyFloat x) pos price purchase = Inl e"
    by (simp add: OwnedAsset_init_def split: sum.splits option.splits)
  have type_error: "check_if_valid h pos = Inr side
        \<and> (purchase = None \<or> (\<exists>d t. purchase = Some d \<and> parse_date h d = Inr t))
      \<longrightarrow> OwnedAsset_init h now tk (PyFloat x) pos price purchase = Inl TypeError"
    by (auto simp: OwnedAsset_init_def)
  have factory: "from_trade h now (trade\<lparr>qty := PyFloat x\<rparr>) pos = Inl TypeError"
    by (simp add: from_trade_def OwnedAsset_params_def)
  have fill: "make_trade self (PyFloat x) price = Inl TypeError"
    by (simp add: make_trade_def)
  have side: "check_if_valid h pos = Inl e
      \<longrightarrow> OwnedAsset_init h now tk n pos price purchase = Inl e"
    by (simp add: OwnedAsset_init_def)
  have built: "OwnedAsset_init h now tk n pos price purchase = Inr a
      \<longrightarrow> n = PyInt (shares_owned a)"
    by (cases n)
       (auto simp: OwnedAsset_init_def set_position_cost_and_value_def
             split: sum.splits option.splits)
  have filled: "make_trade self q price = Inr (a', ret)
      \<longrightarrow> (\<exists>k. q = PyInt k \<and> shares_owned a' = shares_owned self + k)"
    by (cases q)
       (auto simp: make_trade_def Let_def set_position_cost_and_value_def
             split: if_splits sum.splits exn.splits)
  from always type_error factory fill side built filled show ?thesis by blast
qed

theorem non_integral_shares_raise_TypeError_witness:
  "check_if_valid demo_helpers ''LONG'' = Inr LONG
   \<and> OwnedAsset_init demo_helpers 0 ''X'' (PyFloat (3 / 2)) ''LONG'' (py_float 10) None
       = Inl TypeError
   \<and> from_trade demo_helpers 0 (ten_shares_trade\<lparr>qty := PyFloat (3 / 2)\<rparr>) ''LONG''
       = Inl TypeError
   \<and> make_trade ten_at_ten (PyFloat (3 / 2)) (py_float 10) = Inl TypeError
   \<and> check_if_valid demo_helpers ''FLAT'' = Inl (Raised ''InvalidPositionError'')
   \<and> OwnedAsset_init demo_helpers 0 ''X'' (PyInt 10) ''FLAT'' (py_float 10) None
       = Inl (Raised ''InvalidPositionError'')
   \<and> OwnedAsset_init demo_helpers 0 ''X'' (PyInt 10) ''LONG'' (py_float 10) None
       = Inr ten_at_ten
   \<and> PyInt 10 = PyInt (shares_owned ten_at_ten)
   \<and> make_trade ten_at_ten (PyInt 10) (py_float 10) = Inr (twenty_after, Some twenty_after)
   \<and> shares_owned twenty_after = shares_owned ten_at_ten + 10"
  using
    non_integral_shares_raise_TypeError
      [of demo_helpers 0 "''X''" "3 / 2" "''LONG''" "py_float 10" None LONG ten_shares_trade
          ten_at_ten "Raised ''InvalidPositionError''" "PyInt 10" ten_at_ten "PyInt 10"
          twenty_after "Some twenty_after"]
    non_integral_shares_raise_TypeError
      [of demo_helpers 0 "''X''" "3 / 2" "''FLAT''" "py_float 10" None LONG ten_shares_trade
          ten_at_ten "Raised ''InvalidPositionError''" "PyInt 10" ten_at_ten "PyInt 10"
          twenty_after "Some twenty_after"]
  by (simp add: OwnedAsset_init_def demo_helpers_def set_position_cost_and_value_def
        ten_at_ten_def twenty_after_def make_trade_def Let_def
        from_trade_def OwnedAsset_params_def)

section \<open>OwnedAsset: marking to market\<close>

text \<open>
  C7 (\<open>update_total_position_value\<close> sets the latest price, the parsed date and the
  value): when \<open>parse_date\<close> returns \<open>t\<close>, the call returns the object with
  \<open>latest_price\<close> the given price, \<open>latest_price_time\<close> the timestamp \<open>t\<close>, and
  \<open>total_position_value\<close> the price times the shares owned for a long position and
  that times \<open>-1\<close> for a short one; nothing else changes. For a finite price \<open>r\<close> of
  either kind the value is the shares owned times \<open>r\<close>, and minus that when short.
\<close>

theorem update_total_position_value_sets:
  assumes "parse_date h price_date = Inr t"
  shows "update_total_position_value h self p price_date =
           Inr (self\<lparr>latest_price := p, latest_price_time := Stamp t,
                     total_position_value :=
                       (case position self of
                          LONG \<Rightarrow> py_times_int p (shares_owned self)
                        | SHORT \<Rightarrow> py_times_int (py_times_int p (shares_owned self)) (- 1))\<rparr>)
       \<and> update_total_position_value h self (py_float r) price_date =
           Inr (self\<lparr>latest_price := py_float r, latest_price_time := Stamp t,
                     total_position_value :=
                       py_float (case position self of
                                 LONG \<Rightarrow> of_int (shares_owned self) * r
                               | SHORT \<Rightarrow> - (of_int (shares_owned self) * r))\<rparr>)
       \<and> update_total_position_value h self (np_float64 r) price_date =
           Inr (self\<lparr>latest_price := np_float64 r, latest_price_time := Stamp t,
                     total_position_value :=
                       np_float64 (case position self of
                                     LONG \<Rightarrow> of_int (shares_owned self) * r
                                   | SHORT \<Rightarrow> - (of_int (shares_owned self) * r))\<rparr>)"
  using assms
  by (cases "position self")
     (simp_all add: update_total_position_value_def mult.commute)

theorem update_total_position_value_sets_witness:
  "parse_date demo_helpers 7 = Inr 7
   \<and> update_total_position_value demo_helpers ten_at_ten (py_float 12) 7 =
       Inr (ten_at_ten\<lparr>latest_price := py_float 12, latest_price_time := Stamp 7,
                       total_position_value := py_float 120\<rparr>)
   \<and> update_total_position_value demo_helpers ten_at_ten (np_float64 12) 7 =
       Inr (ten_at_ten\<lparr>latest_price := np_float64 12, latest_price_time := Stamp 7,
                       total_position_value := np_float64 120\<rparr>)"
  using update_total_position_value_sets [of demo_helpers 7 7 ten_at_ten "py_float 12" 12]
  by (simp add: demo_helpers_def ten_at_ten_def)

text \<open>
  C9 (\<open>return_on_investment\<close> never returns a value): the call of
  \<open>update_total_position_value\<close> with no arguments raises \<open>TypeError\<close>, whatever the
  object holds, before any ratio is computed.
\<close>

theorem return_on_investment_raises: "return_on_investment truediv h self = Inl TypeError"
  by (simp add: return_on_investment_def)

section \<open>Portfolio: liquidity\<close>

text \<open>The three assertions of \<open>TestPortfolio.test_check_liquidity\<close>.\<close>

lemma test_check_liquidity:
  "check_liquidity (Portfolio_init 100) 100 2 = False
   \<and> check_liquidity (Portfolio_init 100) 100 (- 2) = True
   \<and> check_liquidity (Portfolio_init 100) 1 2 = True"
  by (simp add: check_liquidity_def Portfolio_init_def)

text \<open>
  C4 (\<open>check_liquidity\<close> is false iff the quantity is not negative and price times
  quantity exceeds the cash; it is true for every negative quantity, whatever the
  price and the cash).
\<close>

theorem check_liquidity_iff:
  "(\<not> check_liquidity pf price q \<longleftrightarrow> 0 \<le> q \<and> cash pf < price * of_int q)
   \<and> (q < 0 \<longrightarrow> check_liquidity pf price q)"
  by (auto simp: check_liquidity_def)

theorem check_liquidity_iff_witness:
  "(\<not> check_liquidity (Portfolio_init 100) 100 2 \<longleftrightarrow>
      (0::int) \<le> 2 \<and> cash (Portfolio_init 100) < 100 * of_int 2)
   \<and> (- 2 :: int) < 0 \<and> check_liquidity (Portfolio_init 100) 100 (- 2)"
  using check_liquidity_iff [of "Portfolio_init 100" 100 2]
    check_liquidity_iff [of "Portfolio_init 100" 100 "- 2"]
  by simp

section \<open>Backtest: the dispatcher\<close>

text \<open>
  C3 as stated (dispatching an event of an unknown type is a fatal error) fails: such
  an event, dispatched from a fresh state with the countdown collaborators, makes the
  call return, and no exception is raised.
\<close>

theorem process_event_unknown_type_not_fatal:
  "process_event demo (demo_event (OTHER ''HEARTBEAT'')) (Backtest_init 0)
     = Inr ((Backtest_init 0)\<lparr>dispatched := [demo_event (OTHER ''HEARTBEAT'')]\<rparr>)"
  by (simp add: process_event_def demo_event_def Backtest_init_def)

text \<open>
  C3, amended (an event whose type is none of MARKET, SIGNAL, TRADE, FILL is skipped):
  \<open>_process_event\<close> returns normally; it calls no handler and leaves the counters,
  the queue and the collaborators as they were.
\<close>

theorem process_event_unknown_type_skipped:
  assumes "event_type ev \<notin> {MARKET, SIGNAL, TRADE, FILL}"
  shows "process_event c ev bt = Inr (bt\<lparr>dispatched := dispatched bt @ [ev]\<rparr>)"
  using assms by (simp add: process_event_def)

theorem process_event_unknown_type_skipped_witness:
  "event_type (demo_event (OTHER ''HEARTBEAT'')) \<notin> {MARKET, SIGNAL, TRADE, FILL}
   \<and> process_event demo (demo_event (OTHER ''HEARTBEAT'')) demo_final
     = Inr (demo_final\<lparr>dispatched := dispatched demo_final @ [demo_event (OTHER ''HEARTBEAT'')]\<rparr>)"
  using process_event_unknown_type_skipped [of "demo_event (OTHER ''HEARTBEAT'')" demo demo_final]
  by (simp add: demo_event_def)

section \<open>Backtest: the run loop\<close>

lemma events_of_append: "events_of (xs @ ys) = events_of xs @ events_of ys"
  by (induction xs rule: events_of.induct) simp_all

lemma history_ok_put: "history_ok bt \<Longrightarrow> history_ok (put items bt)"
  by (simp add: history_ok_def put_def events_of_append)

lemma history_ok_world: "history_ok (bt\<lparr>world := w\<rparr>) = history_ok bt"
  by (simp add: history_ok_def)

lemma call_handler_history:
  "call_handler f ev bt = Inr bt' \<Longrightarrow> history_ok bt \<Longrightarrow> history_ok bt'"
  by (auto simp: call_handler_def history_ok_put history_ok_world
           split: sum.splits prod.splits)

text \<open>Popping an event and dispatching it keeps the histories right.\<close>

lemma process_event_history:
  assumes "process_event c ev (bt\<lparr>events := rest\<rparr>) = Inr bt'"
    and "history_ok bt" and "events bt = Some ev # rest"
  shows "history_ok bt'"
proof -
  let ?b = "bt\<lparr>events := rest, dispatched := dispatched bt @ [ev]\<rparr>"
  have ok: "history_ok ?b"
    using assms(2,3) by (simp add: history_ok_def)
  have counted:
    "history_ok (?b\<lparr>signals := signals bt + 1\<rparr>)"
    "history_ok (?b\<lparr>orders := orders bt + 1\<rparr>)"
    "history_ok (?b\<lparr>fills := fills bt + 1\<rparr>)"
    using ok by (simp_all add: history_ok_def)
  show ?thesis
    using assms(1) ok counted
    by (auto simp: process_event_def Let_def split: if_splits sum.splits
             dest: call_handler_history)
qed

text \<open>The inner loop, when it ends without an exception, ends on an empty queue.\<close>

lemma drain_history_result:
  "drain c bt = Some r \<Longrightarrow>
     history_ok bt \<longrightarrow>
       (case r of Inl e \<Rightarrow> True | Inr bt' \<Rightarrow> history_ok bt' \<and> events bt' = [])"
proof (induct rule: drain.raw_induct [rotated, consumes 1, case_names step])
  case (step drain c bt r)
  note IH = step(1) [rule_format] and body = step(2)
  show ?case
  proof (rule impI, cases "events bt")
    assume ok: "history_ok bt"
    case Nil
    with body ok
    show "case r of Inl e \<Rightarrow> True | Inr bt' \<Rightarrow> history_ok bt' \<and> events bt' = []"
      by auto
  next
    assume ok: "history_ok bt"
    case (Cons item rest)
    show "case r of Inl e \<Rightarrow> True | Inr bt' \<Rightarrow> history_ok bt' \<and> events bt' = []"
    proof (cases item)
      case None
      have "history_ok (bt\<lparr>events := rest\<rparr>)"
        using ok Cons None by (simp add: history_ok_def)
      moreover have "drain c (bt\<lparr>events := rest\<rparr>) = Some r"
        using body Cons None by simp
      ultimately show ?thesis by (rule IH [rotated])
    next
      case (Some ev)
      show ?thesis
      proof (cases "process_event c ev (bt\<lparr>events := rest\<rparr>)")
        case (Inl e)
        with body Cons Some show ?thesis by auto
      next
        case (Inr bt1)
        with body Cons Some have next_call: "drain c bt1 = Some r" by simp
        from process_event_history [OF Inr ok] Cons Some have "history_ok bt1" by simp
        with next_call show ?thesis by (rule IH)
      qed
    qed
  qed
qed

lemma drain_history:
  "drain c bt = Some (Inr bt') \<Longrightarrow> history_ok bt \<Longrightarrow> history_ok bt' \<and> events bt' = []"
  using drain_history_result [of c bt "Inr bt'"] by simp

text \<open>
  The outer loop is entered with an empty queue at every iteration, and leaves on
  \<open>StopIteration\<close> at once.
\<close>

lemma run_loop_result:
  "run_loop c bt = Some r \<Longrightarrow>
     history_ok bt \<and> events bt = [] \<longrightarrow>
       (case r of Inl e \<Rightarrow> True | Inr bt' \<Rightarrow> ended_by_stop c bt')"
proof (induct rule: run_loop.raw_induct [rotated, consumes 1, case_names step])
  case (step run_loop c bt r)
  note IH = step(1) [rule_format] and body = step(2)
  show ?case
  proof (intro impI, elim conjE)
    assume ok: "history_ok bt" and empty: "events bt = []"
    show "case r of Inl e \<Rightarrow> True | Inr bt' \<Rightarrow> ended_by_stop c bt'"
    proof (cases "update_bars c (world bt)")
      case (Next_bar w items)
      have ok1: "history_ok (put items (bt\<lparr>world := w\<rparr>))"
        using ok by (simp add: history_ok_put history_ok_world)
      show ?thesis
      proof (cases "drain c (put items (bt\<lparr>world := w\<rparr>))")
        case None
        with body Next_bar show ?thesis by simp
      next
        case (Some d)
        show ?thesis
        proof (cases d)
          case (Inl e)
          with body Next_bar Some show ?thesis by auto
        next
          case (Inr bt1)
          with body Next_bar Some have next_call: "run_loop c bt1 = Some r" by simp
          from drain_history [OF _ ok1] Some Inr
          have "history_ok bt1" "events bt1 = []" by simp_all
          with next_call show ?thesis by (intro IH) simp_all
        qed
      qed
    next
      case (Stop_iteration w items)
      from ok empty have "dispatched bt = events_of (put_history bt)"
        by (simp add: history_ok_def)
      with body empty Stop_iteration show ?thesis
        by (auto simp: put_def ended_by_stop_def)
    next
      case (Bars_raised e)
      with body show ?thesis by auto
    qed
  qed
qed

lemma Backtest_init_history:
  "history_ok (Backtest_init w) \<and> events (Backtest_init w) = []"
  by (simp add: history_ok_def Backtest_init_def)

text \<open>
  With a data handler that puts nothing in the call that raises \<open>StopIteration\<close>, a
  run that returns leaves the queue empty, every event ever put dispatched.
\<close>

lemma run_quiet_stop_empties_queue:
  assumes "run c (Backtest_init w) = Some (Inr bt')" and "quiet_stop c"
  shows "events bt' = [] \<and> dispatched bt' = events_of (put_history bt')"
proof -
  have "history_ok (Backtest_init w :: ('a, 'b) Backtest)"
    and "events (Backtest_init w :: ('a, 'b) Backtest) = []"
    by (simp_all add: Backtest_init_history)
  with run_loop_result [of c "Backtest_init w" "Inr bt'"] assms(1)
  have "ended_by_stop c bt'"
    by (simp add: run_def pre_run_hook_def)
  then obtain w0 w1 items older where
    stop: "update_bars c w0 = Stop_iteration w1 items"
    and left: "events bt' = items" "put_history bt' = older @ items"
      "dispatched bt' = events_of older"
    unfolding ended_by_stop_def by blast
  from assms(2) stop have "items = []"
    unfolding quiet_stop_def by blast
  with left show ?thesis by simp
qed

lemma demo_run: "run demo (Backtest_init (Suc 0)) = Some (Inr demo_final)"
  by (simp add: run_def pre_run_hook_def run_loop.simps drain.simps Backtest_init_def
        demo_def put_def process_event_def call_handler_def demo_event_def demo_final_def)

lemma demo_quiet: "quiet_stop demo"
  by (simp add: quiet_stop_def demo_def)





end
